theory Spec2Isabelle
  imports Main "HOL-Library.Word" "HOL-Library.AList"
begin

unbundle bit_operations_syntax

section \<open>Common types\<close>

text \<open>
  Go's \<open>uint64\<close> is a 64-bit word (subtraction wraps around), a byte an 8-bit word.
  \<open>common.Hash\<close> is the array \<open>[32]byte\<close>; it is modelled as a 256-bit word, so that the
  zero value \<open>common.Hash{}\<close> is \<open>0\<close> and the size is fixed by the type.
  \<open>types.NodeID\<close> is the struct wrapping one \<open>common.Hash\<close>.
\<close>

type_synonym u64 = "64 word"
type_synonym byte = "8 word"
type_synonym hash = "256 word"
type_synonym PublicKey = "byte list"

datatype NodeID = NodeID (nodeHash: hash)

text \<open>
  The \<open>error\<close> values declared by the packages under verification. \<open>ErrExternal\<close> stands
  for an error handed back by a collaborator (key recovery, signing, time encoding).
\<close>

datatype error =
    ErrNodeSetNotReady
  | ErrCRSNotReady
  | ErrConfigurationNotReady
  | ErrInvalidProposerID
  | ErrIncorrectHash
  | ErrIncorrectSignature
  | ErrNoBLSSigner
  | ErrExternal string

section \<open>Committee cache (\<open>NodeSetCache\<close>)\<close>

subsection \<open>Data\<close>

text \<open>
  Modelled from the spec: \<open>types.NodeSet\<close> is declared outside the files at hand; the
  cache uses it as the set of node identities \<open>IDs\<close> with \<open>NewNodeSet\<close>, \<open>Add\<close>, a
  membership test and a \<open>range\<close> loop. It is a duplicate-free list here, the order of the
  list standing for the order in which \<open>range\<close> yields the identities.
\<close>

type_synonym NodeSet = "NodeID list"

definition NewNodeSet :: NodeSet where
  "NewNodeSet = []"

definition Add :: "NodeID \<Rightarrow> NodeSet \<Rightarrow> NodeSet" where
  "Add nID ns = (if nID \<in> set ns then ns else ns @ [nID])"

record sets =
  crs :: hash
  nodeSet :: NodeSet
  notarySet :: "NodeID list"

text \<open>
  A record of the key pool. \<open>refCnt\<close> is a Go \<open>int\<close>; it moves by one per key and per
  round, far from the ends of its 64-bit range, so it is an integer here: \<open>refCnt--\<close>
  below 1 gives 0 or a negative number, as in the code.
\<close>

record keyRec =
  pubKey :: PublicKey
  refCnt :: int

text \<open>
  The map \<open>rounds\<close> is iterated by \<open>update\<close>, so it is an association list with distinct
  keys whose order stands for the iteration order of the Go map; \<open>keyPool\<close> is only looked
  up, updated and deleted from, so it is a partial function.
\<close>

record NodeSetCache =
  rounds :: "(u64 \<times> sets) list"
  keyPool :: "NodeID \<rightharpoonup> keyRec"

record Config =
  NotarySetSize :: "32 word"

text \<open>
  \<open>NodeSetCacheInterface\<close>, the round-information provider. A nil slice or a nil
  pointer is \<open>None\<close>.
\<close>

record NodeSetCacheInterface =
  Configuration :: "u64 \<Rightarrow> Config option"
  CRS :: "u64 \<Rightarrow> hash"
  NodeSet :: "u64 \<Rightarrow> PublicKey list option"

text \<open>
  The functions of package \<open>types\<close> that the cache calls and whose bodies are not among
  the files at hand; they are parameters. \<open>GetSubSet t n crs ns\<close> stands for
  \<open>ns.GetSubSet(n, types.NewNotarySetTarget(crs))\<close>.
\<close>

record TypesPkg =
  NewNodeID :: "PublicKey \<Rightarrow> NodeID"
  GetSubSet :: "int \<Rightarrow> hash \<Rightarrow> NodeSet \<Rightarrow> NodeID list"

definition NewNodeSetCache :: NodeSetCache where
  "NewNodeSetCache = \<lparr>rounds = [], keyPool = Map.empty\<rparr>"

text \<open>
  A call either returns, with the cache as the call left it and the returned value, or
  panics: \<open>Purge\<close> and \<open>update\<close> dereference the pool record of a node without testing
  that it exists.
\<close>

datatype 'a outcome = Returned NodeSetCache 'a | Panicked

subsection \<open>Operations\<close>

text \<open>\<open>get\<close>: the lookup \<open>cache.rounds[round]\<close>.\<close>

definition get :: "u64 \<Rightarrow> NodeSetCache \<Rightarrow> sets option" where
  "get round cache = map_of (rounds cache) round"

text \<open>
  The loop over the node identities of a round that \<open>Purge\<close> and \<open>update\<close> share:
  \<open>rec := cache.keyPool[nID]; if rec.refCnt--; rec.refCnt == 0 { delete(cache.keyPool, nID) }\<close>.
  \<open>None\<close> is the nil dereference.
\<close>

fun releaseKeys :: "NodeID list \<Rightarrow> (NodeID \<rightharpoonup> keyRec) \<Rightarrow> (NodeID \<rightharpoonup> keyRec) option" where
  "releaseKeys [] pool = Some pool"
| "releaseKeys (nID # rest) pool =
     (case pool nID of
        None \<Rightarrow> None
      | Some rec \<Rightarrow>
          (if refCnt rec - 1 = 0 then releaseKeys rest (pool(nID := None))
           else releaseKeys rest (pool(nID \<mapsto> rec\<lparr>refCnt := refCnt rec - 1\<rparr>))))"

definition Purge :: "u64 \<Rightarrow> NodeSetCache \<Rightarrow> unit outcome" where
  "Purge rID cache =
     (case map_of (rounds cache) rID of
        None \<Rightarrow> Returned cache ()
      | Some nIDs \<Rightarrow>
          (case releaseKeys (nodeSet nIDs) (keyPool cache) of
             None \<Rightarrow> Panicked
           | Some pool \<Rightarrow>
               Returned (cache\<lparr>keyPool := pool, rounds := AList.delete rID (rounds cache)\<rparr>) ()))"

text \<open>
  The first loop of \<open>update\<close> ("Cache new round"): every key of the provider's list is
  added to the node set, and its pool record is created with count 1 or incremented.
\<close>

fun cacheKeys ::
  "TypesPkg \<Rightarrow> PublicKey list \<Rightarrow> NodeSet \<Rightarrow> (NodeID \<rightharpoonup> keyRec) \<Rightarrow>
   NodeSet \<times> (NodeID \<rightharpoonup> keyRec)" where
  "cacheKeys t [] ns pool = (ns, pool)"
| "cacheKeys t (key # rest) ns pool =
     (let nID = NewNodeID t key in
      cacheKeys t rest (Add nID ns)
        (case pool nID of
           Some rec \<Rightarrow> pool(nID \<mapsto> rec\<lparr>refCnt := refCnt rec + 1\<rparr>)
         | None \<Rightarrow> pool(nID \<mapsto> \<lparr>pubKey = key, refCnt = 1\<rparr>)))"

text \<open>
  The second loop of \<open>update\<close> ("Purge older rounds") over the entries of \<open>cache.rounds\<close>.
  Only the entry in hand is deleted during the iteration, so the loop sees every entry the
  map had when it started. \<open>round - rID\<close> is a \<open>uint64\<close> subtraction.
\<close>

fun purgeOlder :: "u64 \<Rightarrow> (u64 \<times> sets) list \<Rightarrow> NodeSetCache \<Rightarrow> NodeSetCache option" where
  "purgeOlder round [] cache = Some cache"
| "purgeOlder round ((rID, nIDs) # rest) cache =
     (if round - rID \<le> 5 then purgeOlder round rest cache
      else
        (case releaseKeys (nodeSet nIDs) (keyPool cache) of
           None \<Rightarrow> None
         | Some pool \<Rightarrow>
             purgeOlder round rest
               (cache\<lparr>keyPool := pool, rounds := AList.delete rID (rounds cache)\<rparr>)))"

text \<open>
  The part of \<open>update\<close> before the sweep (lines 185 to 222): it returns on the first
  failed check, with the cache as it is at that point, or stores the new snapshot.
\<close>

definition cacheRound ::
  "TypesPkg \<Rightarrow> NodeSetCacheInterface \<Rightarrow> u64 \<Rightarrow> NodeSetCache \<Rightarrow> NodeSetCache \<times> (error + sets)" where
  "cacheRound t d round cache =
     (case NodeSet d round of
        None \<Rightarrow> (cache, Inl ErrNodeSetNotReady)
      | Some keySet \<Rightarrow>
          (if CRS d round = 0 then (cache, Inl ErrCRSNotReady)
           else
             (case cacheKeys t keySet NewNodeSet (keyPool cache) of
                (ns, pool) \<Rightarrow>
                  (case Configuration d round of
                     None \<Rightarrow> (cache\<lparr>keyPool := pool\<rparr>, Inl ErrConfigurationNotReady)
                   | Some cfg \<Rightarrow>
                       (let nIDs = \<lparr>crs = CRS d round, nodeSet = ns,
                                    notarySet = GetSubSet t (uint (NotarySetSize cfg)) (CRS d round) ns\<rparr>
                        in (cache\<lparr>keyPool := pool,
                                   rounds := AList.update round nIDs (rounds cache)\<rparr>,
                            Inr nIDs))))))"

definition update ::
  "TypesPkg \<Rightarrow> NodeSetCacheInterface \<Rightarrow> u64 \<Rightarrow> NodeSetCache \<Rightarrow> (error + sets) outcome" where
  "update t d round cache =
     (case cacheRound t d round cache of
        (cache1, Inl err) \<Rightarrow> Returned cache1 (Inl err)
      | (cache1, Inr nIDs) \<Rightarrow>
          (case purgeOlder round (rounds cache1) cache1 of
             None \<Rightarrow> Panicked
           | Some cache2 \<Rightarrow> Returned cache2 (Inr nIDs)))"

text \<open>\<open>Touch\<close> calls \<open>update\<close> whether or not the round is cached, and keeps the error.\<close>

definition Touch ::
  "TypesPkg \<Rightarrow> NodeSetCacheInterface \<Rightarrow> u64 \<Rightarrow> NodeSetCache \<Rightarrow> error option outcome" where
  "Touch t d round cache =
     (case update t d round cache of
        Panicked \<Rightarrow> Panicked
      | Returned cache1 (Inl err) \<Rightarrow> Returned cache1 (Some err)
      | Returned cache1 (Inr nIDs) \<Rightarrow> Returned cache1 None)"

text \<open>\<open>getOrUpdate\<close>: the cached snapshot, or the one \<open>update\<close> builds on a miss.\<close>

definition getOrUpdate ::
  "TypesPkg \<Rightarrow> NodeSetCacheInterface \<Rightarrow> u64 \<Rightarrow> NodeSetCache \<Rightarrow> (error + sets) outcome" where
  "getOrUpdate t d round cache =
     (case get round cache of
        Some s \<Rightarrow> Returned cache (Inr s)
      | None \<Rightarrow> update t d round cache)"

text \<open>
  \<open>Exists\<close> and \<open>GetNodeSet\<close> look the round up and call \<open>update\<close> on a miss;
  \<open>GetNodeSet\<close> returns a clone of the node set, \<open>GetNotarySet\<close> a clone of the
  notary set (a clone is the same value here). The lookup and \<open>update\<close> take the lock
  one after the other in the code; here a call runs alone, so the two follow each other
  with no other call in between.
\<close>

definition Exists ::
  "TypesPkg \<Rightarrow> NodeSetCacheInterface \<Rightarrow> u64 \<Rightarrow> NodeID \<Rightarrow> NodeSetCache \<Rightarrow> (error + bool) outcome" where
  "Exists t d round nodeID cache =
     (case get round cache of
        Some nIDs \<Rightarrow> Returned cache (Inr (nodeID \<in> set (nodeSet nIDs)))
      | None \<Rightarrow>
          (case update t d round cache of
             Panicked \<Rightarrow> Panicked
           | Returned cache1 (Inl err) \<Rightarrow> Returned cache1 (Inl err)
           | Returned cache1 (Inr nIDs) \<Rightarrow> Returned cache1 (Inr (nodeID \<in> set (nodeSet nIDs)))))"

definition GetNodeSet ::
  "TypesPkg \<Rightarrow> NodeSetCacheInterface \<Rightarrow> u64 \<Rightarrow> NodeSetCache \<Rightarrow> (error + NodeSet) outcome" where
  "GetNodeSet t d round cache =
     (case get round cache of
        Some IDs \<Rightarrow> Returned cache (Inr (nodeSet IDs))
      | None \<Rightarrow>
          (case update t d round cache of
             Panicked \<Rightarrow> Panicked
           | Returned cache1 (Inl err) \<Rightarrow> Returned cache1 (Inl err)
           | Returned cache1 (Inr IDs) \<Rightarrow> Returned cache1 (Inr (nodeSet IDs))))"

definition GetNotarySet ::
  "TypesPkg \<Rightarrow> NodeSetCacheInterface \<Rightarrow> u64 \<Rightarrow> NodeSetCache \<Rightarrow> (error + NodeID list) outcome" where
  "GetNotarySet t d round cache =
     (case getOrUpdate t d round cache of
        Panicked \<Rightarrow> Panicked
      | Returned cache1 (Inl err) \<Rightarrow> Returned cache1 (Inl err)
      | Returned cache1 (Inr nIDs) \<Rightarrow> Returned cache1 (Inr (notarySet nIDs)))"

definition GetPublicKey :: "NodeID \<Rightarrow> NodeSetCache \<Rightarrow> PublicKey option" where
  "GetPublicKey nodeID cache = map_option pubKey (keyPool cache nodeID)"

subsection \<open>Reference counts and retained rounds\<close>

text \<open>
  The count the pool holds for a node (0 when the node has no record), and the number of
  retained rounds whose node set contains the node.
\<close>

definition poolCount :: "(NodeID \<rightharpoonup> keyRec) \<Rightarrow> NodeID \<Rightarrow> int" where
  "poolCount pool nID = (case pool nID of None \<Rightarrow> 0 | Some rec \<Rightarrow> refCnt rec)"

definition retainedRefs :: "NodeSetCache \<Rightarrow> NodeID \<Rightarrow> nat" where
  "retainedRefs cache nID = length (filter (\<lambda>(rID, s). nID \<in> set (nodeSet s)) (rounds cache))"


text \<open>The callers' operations of the cache, and a sequence of them run from a cache.\<close>

datatype cacheOp =
    OpExists u64 NodeID
  | OpGetNodeSet u64
  | OpGetNotarySet u64
  | OpTouch u64
  | OpPurge u64

fun after :: "'a outcome \<Rightarrow> NodeSetCache option" where
  "after Panicked = None"
| "after (Returned cache _) = Some cache"

fun applyOp :: "TypesPkg \<Rightarrow> NodeSetCacheInterface \<Rightarrow> cacheOp \<Rightarrow> NodeSetCache \<Rightarrow> NodeSetCache option" where
  "applyOp t d (OpExists round nID) cache = after (Exists t d round nID cache)"
| "applyOp t d (OpGetNodeSet round) cache = after (GetNodeSet t d round cache)"
| "applyOp t d (OpGetNotarySet round) cache = after (GetNotarySet t d round cache)"
| "applyOp t d (OpTouch round) cache = after (Touch t d round cache)"
| "applyOp t d (OpPurge round) cache = after (Purge round cache)"

fun runOps :: "TypesPkg \<Rightarrow> NodeSetCacheInterface \<Rightarrow> cacheOp list \<Rightarrow> NodeSetCache \<Rightarrow> NodeSetCache option" where
  "runOps t d [] cache = Some cache"
| "runOps t d (op # ops) cache =
     (case applyOp t d op cache of None \<Rightarrow> None | Some cache1 \<Rightarrow> runOps t d ops cache1)"

subsection \<open>Example collaborators\<close>

text \<open>
  A stand-in for package \<open>types\<close>: the identity of a key is its first byte, the notary
  subset the first \<open>n\<close> nodes. A provider that answers every round alike, and a key
  whose identity is \<open>NodeID 7\<close>.
\<close>

definition exTypes :: TypesPkg where
  "exTypes = \<lparr>NewNodeID = (\<lambda>key. case key of [] \<Rightarrow> NodeID 0 | b # _ \<Rightarrow> NodeID (ucast b)),
              GetSubSet = (\<lambda>n c ns. take (nat n) ns)\<rparr>"

definition exProvider :: "PublicKey list option \<Rightarrow> hash \<Rightarrow> Config option \<Rightarrow> NodeSetCacheInterface" where
  "exProvider keys c cfg = \<lparr>Configuration = (\<lambda>_. cfg), CRS = (\<lambda>_. c), NodeSet = (\<lambda>_. keys)\<rparr>"

definition exKey :: PublicKey where
  "exKey = [7]"

definition exSets :: "NodeID list \<Rightarrow> NodeID list \<Rightarrow> sets" where
  "exSets ns nt = \<lparr>crs = 1, nodeSet = ns, notarySet = nt\<rparr>"

definition exRec :: "int \<Rightarrow> keyRec" where
  "exRec n = \<lparr>pubKey = exKey, refCnt = n\<rparr>"

section \<open>Canonical hashing and signing (package \<open>utils\<close>)\<close>

subsection \<open>Data\<close>

text \<open>
  \<open>crypto.Signature\<close>; its zero value has the empty type and no bytes. A \<open>[]byte\<close> is a
  list of bytes, the nil slice being the empty list.
\<close>

type_synonym PrivateKey = "byte list"

record Signature =
  sigType :: string
  sigBytes :: "byte list"

record Position =
  Round :: u64
  Height :: u64

record Witness =
  witHeight :: u64
  Data :: "byte list"

text \<open>
  Go's \<open>time.Time\<close>, as far as \<open>HashBlock\<close> uses it: an instant and a location.
  \<open>UTC()\<close> returns the same instant with the location set to UTC.
\<close>

record Time =
  instant :: int
  location :: string

definition UTC :: "Time \<Rightarrow> Time" where
  "UTC tm = tm\<lparr>location := ''UTC''\<rparr>"

record Block =
  ProposerID :: NodeID
  ParentHash :: hash
  Hash :: hash
  Position :: Position
  Timestamp :: Time
  Payload :: "byte list"
  PayloadHash :: hash
  Witness :: Witness
  Randomness :: "byte list"
  Signature :: Signature
  CRSSignature :: Signature

text \<open>
  \<open>typesDKG.PrivateShare\<close> and \<open>typesDKG.Complaint\<close>, with the fields the hash and
  verification functions read; \<open>psPrivateShare\<close> is \<open>prvShare.PrivateShare.Bytes()\<close>.
\<close>

record PrivateShare =
  psProposerID :: NodeID
  psReceiverID :: NodeID
  psRound :: u64
  psReset :: u64
  psPrivateShare :: "byte list"
  psSignature :: Signature

record Complaint =
  cProposerID :: NodeID
  cRound :: u64
  cReset :: u64
  cPrivateShare :: PrivateShare
  cSignature :: Signature

text \<open>
  What package \<open>utils\<close> takes from elsewhere, as parameters: \<open>crypto.Keccak256Hash\<close>
  (it hashes the concatenation of its arguments), \<open>crypto.SigToPub\<close>, the methods
  \<open>Sign\<close> and \<open>PublicKey\<close> of a private key, \<open>Time.MarshalBinary\<close>, \<open>Complaint.IsNack\<close>,
  and the package variable \<open>dkgDelayRound\<close>. A Go function returning a value and an
  error returns a pair here, the error being \<open>None\<close> for nil.
\<close>

record UtilsDeps =
  Keccak256Hash :: "byte list \<Rightarrow> hash"
  SigToPub :: "hash \<Rightarrow> Signature \<Rightarrow> PublicKey \<times> error option"
  Sign :: "PrivateKey \<Rightarrow> hash \<Rightarrow> Signature \<times> error option"
  PublicKeyOf :: "PrivateKey \<Rightarrow> PublicKey"
  MarshalBinary :: "Time \<Rightarrow> byte list \<times> error option"
  IsNack :: "Complaint \<Rightarrow> bool"
  dkgDelayRound :: u64

type_synonym blsSigner = "u64 \<Rightarrow> hash \<Rightarrow> Signature \<times> error option"

record Signer =
  prvKey :: PrivateKey
  signerPubKey :: PublicKey
  proposerID :: NodeID
  blsSign :: "blsSigner option"

subsection \<open>Byte encodings\<close>

text \<open>
  The \<open>n\<close> low bytes of a word, least significant first:
  \<open>binary.LittleEndian.PutUint64\<close> for \<open>n = 8\<close>, and the 32 bytes \<open>h[:]\<close> of a hash.
\<close>

definition le_bytes :: "nat \<Rightarrow> 'a::len word \<Rightarrow> byte list" where
  "le_bytes n w = map (\<lambda>i. ucast (drop_bit (8 * i) w)) [0..<n]"

definition PutUint64 :: "u64 \<Rightarrow> byte list" where
  "PutUint64 v = le_bytes 8 v"

definition hashBytes :: "hash \<Rightarrow> byte list" where
  "hashBytes h = le_bytes 32 h"

subsection \<open>Hashing\<close>

definition HashPosition :: "UtilsDeps \<Rightarrow> Position \<Rightarrow> hash" where
  "HashPosition k position =
     Keccak256Hash k (PutUint64 (Round position) @ PutUint64 (Height position))"

definition hashWitness :: "UtilsDeps \<Rightarrow> Witness \<Rightarrow> hash \<times> error option" where
  "hashWitness k witness =
     (Keccak256Hash k (PutUint64 (witHeight witness) @ Data witness), None)"

definition HashBlock :: "UtilsDeps \<Rightarrow> Block \<Rightarrow> hash \<times> error option" where
  "HashBlock k block =
     (let hashPosition = HashPosition k (Position block) in
      case MarshalBinary k (UTC (Timestamp block)) of
        (binaryTimestamp, Some err) \<Rightarrow> (0, Some err)
      | (binaryTimestamp, None) \<Rightarrow>
          (case hashWitness k (Witness block) of
             (binaryWitness, Some err) \<Rightarrow> (0, Some err)
           | (binaryWitness, None) \<Rightarrow>
               (Keccak256Hash k
                  (hashBytes (nodeHash (ProposerID block)) @ hashBytes (ParentHash block)
                   @ hashBytes hashPosition @ binaryTimestamp
                   @ hashBytes (PayloadHash block) @ hashBytes binaryWitness),
                None)))"

definition hashCRS :: "UtilsDeps \<Rightarrow> Block \<Rightarrow> hash \<Rightarrow> hash" where
  "hashCRS k block crsValue =
     (let hashPos = HashPosition k (Position block) in
      if Round (Position block) < dkgDelayRound k
      then Keccak256Hash k
             (hashBytes crsValue @ hashBytes hashPos @ hashBytes (nodeHash (ProposerID block)))
      else Keccak256Hash k (hashBytes crsValue @ hashBytes hashPos))"

definition hashDKGPrivateShare :: "UtilsDeps \<Rightarrow> PrivateShare \<Rightarrow> hash" where
  "hashDKGPrivateShare k prvShare =
     Keccak256Hash k
       (hashBytes (nodeHash (psProposerID prvShare)) @ hashBytes (nodeHash (psReceiverID prvShare))
        @ PutUint64 (psRound prvShare) @ PutUint64 (psReset prvShare) @ psPrivateShare prvShare)"

definition hashDKGComplaint :: "UtilsDeps \<Rightarrow> Complaint \<Rightarrow> hash" where
  "hashDKGComplaint k complaint =
     (let hashPrvShare = hashDKGPrivateShare k (cPrivateShare complaint) in
      Keccak256Hash k
        (hashBytes (nodeHash (cProposerID complaint)) @ PutUint64 (cRound complaint)
         @ PutUint64 (cReset complaint) @ hashBytes hashPrvShare))"

subsection \<open>Signing\<close>

definition NewSigner :: "UtilsDeps \<Rightarrow> TypesPkg \<Rightarrow> PrivateKey \<Rightarrow> Signer" where
  "NewSigner k t prv =
     \<lparr>prvKey = prv, signerPubKey = PublicKeyOf k prv,
      proposerID = NewNodeID t (PublicKeyOf k prv), blsSign = None\<rparr>"

definition SetBLSSigner :: "blsSigner option \<Rightarrow> Signer \<Rightarrow> Signer" where
  "SetBLSSigner signer s = s\<lparr>blsSign := signer\<rparr>"


text \<open>
  \<open>SignCRS\<close>: the block as the call leaves it, the error, and the calls made to the
  threshold signer \<open>blsSign\<close>, each with its round and digest.
\<close>

definition SignCRS ::
  "UtilsDeps \<Rightarrow> Signer \<Rightarrow> Block \<Rightarrow> hash \<Rightarrow> Block \<times> error option \<times> (u64 \<times> hash) list" where
  "SignCRS k s b crsValue =
     (if ProposerID b \<noteq> proposerID s then (b, Some ErrInvalidProposerID, [])
      else if Round (Position b) < dkgDelayRound k
      then (let h = hashCRS k b crsValue
            in (b\<lparr>CRSSignature := \<lparr>sigType = ''bls'', sigBytes = hashBytes h\<rparr>\<rparr>, None, []))
      else
        (case blsSign s of
           None \<Rightarrow> (b, Some ErrNoBLSSigner, [])
         | Some signer \<Rightarrow>
             (case signer (Round (Position b)) (hashCRS k b crsValue) of
                (sig, err) \<Rightarrow>
                  (b\<lparr>CRSSignature := sig\<rparr>, err,
                   [(Round (Position b), hashCRS k b crsValue)]))))"

subsection \<open>Verification\<close>

definition VerifyBlockSignatureWithoutPayload ::
  "UtilsDeps \<Rightarrow> TypesPkg \<Rightarrow> Block \<Rightarrow> error option" where
  "VerifyBlockSignatureWithoutPayload k t b =
     (case HashBlock k b of
        (h, Some err) \<Rightarrow> Some err
      | (h, None) \<Rightarrow>
          (if h \<noteq> Hash b then Some ErrIncorrectHash
           else
             (case SigToPub k (Hash b) (Signature b) of
                (pub, Some err) \<Rightarrow> Some err
              | (pub, None) \<Rightarrow>
                  (if ProposerID b \<noteq> NewNodeID t pub then Some ErrIncorrectSignature
                   else None))))"

definition VerifyBlockSignature :: "UtilsDeps \<Rightarrow> TypesPkg \<Rightarrow> Block \<Rightarrow> error option" where
  "VerifyBlockSignature k t b =
     (let payloadHash = Keccak256Hash k (Payload b) in
      if payloadHash \<noteq> PayloadHash b then Some ErrIncorrectHash
      else VerifyBlockSignatureWithoutPayload k t b)"

definition VerifyDKGPrivateShareSignature ::
  "UtilsDeps \<Rightarrow> TypesPkg \<Rightarrow> PrivateShare \<Rightarrow> bool \<times> error option" where
  "VerifyDKGPrivateShareSignature k t prvShare =
     (let h = hashDKGPrivateShare k prvShare in
      case SigToPub k h (psSignature prvShare) of
        (pub, Some err) \<Rightarrow> (False, Some err)
      | (pub, None) \<Rightarrow>
          (if psProposerID prvShare \<noteq> NewNodeID t pub then (False, None)
           else (True, None)))"

definition VerifyDKGComplaintSignature ::
  "UtilsDeps \<Rightarrow> TypesPkg \<Rightarrow> Complaint \<Rightarrow> bool \<times> error option" where
  "VerifyDKGComplaintSignature k t complaint =
     (if cRound complaint \<noteq> psRound (cPrivateShare complaint) then (False, None)
      else if cReset complaint \<noteq> psReset (cPrivateShare complaint) then (False, None)
      else
        (let h = hashDKGComplaint k complaint in
         case SigToPub k h (cSignature complaint) of
           (pub, Some err) \<Rightarrow> (False, Some err)
         | (pub, None) \<Rightarrow>
             (if cProposerID complaint \<noteq> NewNodeID t pub then (False, None)
              else if \<not> IsNack k complaint
              then VerifyDKGPrivateShareSignature k t (cPrivateShare complaint)
              else (True, None))))"

subsection \<open>The byte strings a block hands to the hash function\<close>




text \<open>
  A change of one of the six fields that go into the hash, made to a block after it was
  signed; the stored hash, the payload hash and the signature stay as they are. A
  change counts when the new value is another one; for the timestamp, which is hashed in
  its UTC form, when the new time is another time in UTC.
\<close>

datatype mutation =
    MutPayload "byte list"
  | MutPosition Position
  | MutTimestamp Time
  | MutWitness Witness
  | MutParentHash hash
  | MutProposerID NodeID

fun mutate :: "mutation \<Rightarrow> Block \<Rightarrow> Block" where
  "mutate (MutPayload p) b = b\<lparr>Payload := p\<rparr>"
| "mutate (MutPosition p) b = b\<lparr>Position := p\<rparr>"
| "mutate (MutTimestamp tm) b = b\<lparr>Timestamp := tm\<rparr>"
| "mutate (MutWitness w) b = b\<lparr>Witness := w\<rparr>"
| "mutate (MutParentHash h) b = b\<lparr>ParentHash := h\<rparr>"
| "mutate (MutProposerID n) b = b\<lparr>ProposerID := n\<rparr>"



subsection \<open>Example collaborators\<close>

text \<open>
  A toy instance for evaluation: the hash of a byte string is its length, the public
  key of a private key is the key itself, a signature carries the public key of its
  signer, which recovery reads back, and the time encoding is a run of zero bytes whose length
  tells the instant, followed by the length of the location name.
\<close>

definition exUtils :: UtilsDeps where
  "exUtils =
     \<lparr>Keccak256Hash = (\<lambda>bs. word_of_nat (length bs)),
      SigToPub = (\<lambda>h sig. (sigBytes sig, None)),
      Sign = (\<lambda>prv h. (\<lparr>sigType = ''toy'', sigBytes = prv\<rparr>, None)),
      PublicKeyOf = (\<lambda>prv. prv),
      MarshalBinary =
        (\<lambda>tm. (replicate (nat (if 0 \<le> instant tm then 2 * instant tm
                                 else - 2 * instant tm - 1)) 0
                   @ [word_of_nat (length (location tm))], None)),
      IsNack = (\<lambda>c. sigBytes (psSignature (cPrivateShare c)) = []),
      dkgDelayRound = 1\<rparr>"

definition exBlock :: Block where
  "exBlock =
     \<lparr>ProposerID = NodeID 0, ParentHash = 5, Hash = 0,
      Position = \<lparr>Round = 0, Height = 1\<rparr>,
      Timestamp = \<lparr>instant = 3, location = ''UTC''\<rparr>,
      Payload = [1, 2], PayloadHash = 0,
      Witness = \<lparr>witHeight = 0, Data = [9]\<rparr>,
      Randomness = [],
      Signature = \<lparr>sigType = [], sigBytes = []\<rparr>,
      CRSSignature = \<lparr>sigType = [], sigBytes = []\<rparr>\<rparr>"

text \<open>A signer for the private key \<open>[0]\<close>, the block it signs from \<open>exBlock\<close>, a
  threshold signer, and a complaint about a private share.\<close>

definition exSigner :: Signer where
  "exSigner = NewSigner exUtils exTypes [0]"


definition exBlsSigner :: blsSigner where
  "exBlsSigner round h = (\<lparr>sigType = ''bls'', sigBytes = PutUint64 round\<rparr>, None)"

definition exShare :: "NodeID \<Rightarrow> u64 \<Rightarrow> byte list \<Rightarrow> PrivateShare" where
  "exShare proposer round sg =
     \<lparr>psProposerID = proposer, psReceiverID = NodeID 3, psRound = round, psReset = 0,
      psPrivateShare = [1], psSignature = \<lparr>sigType = ''toy'', sigBytes = sg\<rparr>\<rparr>"

definition exComplaint :: "PrivateShare \<Rightarrow> Complaint" where
  "exComplaint share =
     \<lparr>cProposerID = NodeID 3, cRound = 1, cReset = 0, cPrivateShare = share,
      cSignature = \<lparr>sigType = ''toy'', sigBytes = [3]\<rparr>\<rparr>"

section \<open>Agreement state machine\<close>

datatype agreementStateType =
    stateFast
  | stateFastVote
  | stateInitial
  | statePreCommit
  | stateCommit
  | stateForward
  | statePullVote
  | stateSleep

datatype VoteType = VoteInit | VotePreCom | VoteCom | VoteFast | VoteFastCom

text \<open>\<open>NullBlockHash\<close> is the zero hash; every byte of \<open>SkipBlockHash\<close> is \<open>0xff\<close>.\<close>

definition NullBlockHash :: hash where
  "NullBlockHash = 0"

definition SkipBlockHash :: hash where
  "SkipBlockHash = - 1"

record Vote =
  vProposerID :: NodeID
  vType :: VoteType
  vBlockHash :: hash
  vPeriod :: u64
  vPosition :: Position
  vPartialSignature :: Signature
  vSignature :: Signature

text \<open>\<open>NewVote\<close> sets the type, the block hash and the period; the rest is zero.\<close>

definition NewVote :: "VoteType \<Rightarrow> hash \<Rightarrow> u64 \<Rightarrow> Vote" where
  "NewVote ty h p =
     \<lparr>vProposerID = NodeID 0, vType = ty, vBlockHash = h, vPeriod = p,
      vPosition = \<lparr>Round = 0, Height = 0\<rparr>,
      vPartialSignature = \<lparr>sigType = [], sigBytes = []\<rparr>,
      vSignature = \<lparr>sigType = [], sigBytes = []\<rparr>\<rparr>"

text \<open>
  Modelled from the spec: \<open>agreementData\<close> is declared outside the files at hand. The
  states read its fields \<open>isLeader\<close>, \<open>lockValue\<close> and \<open>period\<close>, and call
  \<open>recv.ProposeBlock()\<close>, \<open>recv.ProposeVote(vote)\<close> and \<open>leader.leaderBlockHash()\<close>.
  The record holds the fields and the hashes the two queries return; the calls made to
  \<open>recv\<close> are the output of a transition.
\<close>

record agreementData =
  isLeader :: bool
  lockValue :: hash
  period :: u64
  ProposeBlock :: hash
  leaderBlockHash :: hash

datatype recvCall = CallProposeBlock | CallProposeVote Vote

fun clocks :: "agreementStateType \<Rightarrow> int" where
  "clocks stateFast = 0"
| "clocks stateFastVote = 3"
| "clocks stateInitial = 0"
| "clocks statePreCommit = 2"
| "clocks stateCommit = 2"
| "clocks stateForward = 4"
| "clocks statePullVote = 4"
| "clocks stateSleep = 65536"

text \<open>
  \<open>nextState\<close> of each state: the next state, the error (always nil) and the calls made
  to \<open>recv\<close>, in order, with the agreement data as the call finds it.
\<close>

fun nextState ::
  "agreementData \<Rightarrow> agreementStateType \<Rightarrow> agreementStateType \<times> error option \<times> recvCall list" where
  "nextState a stateFast =
     (stateFastVote, None,
      if isLeader a
      then CallProposeBlock #
           (if ProposeBlock a \<noteq> NullBlockHash
            then [CallProposeVote (NewVote VoteFast (ProposeBlock a) (period a))] else [])
      else [])"
| "nextState a stateFastVote = (stateInitial, None, [])"
| "nextState a stateInitial =
     (statePreCommit, None,
      if \<not> isLeader a
      then [CallProposeBlock, CallProposeVote (NewVote VoteInit (ProposeBlock a) (period a))]
      else [])"
| "nextState a statePreCommit =
     (stateCommit, None,
      if lockValue a = SkipBlockHash \<or> lockValue a = NullBlockHash
      then [CallProposeVote (NewVote VotePreCom (leaderBlockHash a) (period a))]
      else [CallProposeVote (NewVote VotePreCom (lockValue a) (period a))])"
| "nextState a stateCommit =
     (stateForward, None, [CallProposeVote (NewVote VoteCom (lockValue a) (period a))])"
| "nextState a stateForward = (statePullVote, None, [])"
| "nextState a statePullVote = (statePullVote, None, [])"
| "nextState a stateSleep = (stateSleep, None, [])"

text \<open>
  The driver calls \<open>nextState\<close> again and again; \<open>a n\<close> is the agreement data at the
  \<open>n\<close>-th call. \<open>stateAt\<close> is the state before that call, \<open>votesAt\<close> the votes the call
  hands to \<open>ProposeVote\<close>.
\<close>

fun stateAt :: "(nat \<Rightarrow> agreementData) \<Rightarrow> agreementStateType \<Rightarrow> nat \<Rightarrow> agreementStateType" where
  "stateAt a s0 0 = s0"
| "stateAt a s0 (Suc n) = fst (nextState (a n) (stateAt a s0 n))"

fun votesOf :: "recvCall list \<Rightarrow> Vote list" where
  "votesOf [] = []"
| "votesOf (CallProposeBlock # cs) = votesOf cs"
| "votesOf (CallProposeVote v # cs) = v # votesOf cs"

definition votesAt :: "(nat \<Rightarrow> agreementData) \<Rightarrow> agreementStateType \<Rightarrow> nat \<Rightarrow> Vote list" where
  "votesAt a s0 n = votesOf (snd (snd (nextState (a n) (stateAt a s0 n))))"

definition exData :: "nat \<Rightarrow> agreementData" where
  "exData n = \<lparr>isLeader = True, lockValue = 0, period = 1, ProposeBlock = 9, leaderBlockHash = 9\<rparr>"

section \<open>Non-blocking dispatcher\<close>

text \<open>
  The events of the queue. \<open>BlockConfirmed\<close> and \<open>BlockDelivered\<close> add the first two
  kinds; any other value in the queue is reported by the worker and dropped.
\<close>

datatype event =
    blockConfirmedEvent Block
  | blockDeliveredEvent hash Position "byte list"
  | otherEvent

datatype appCall =
    AppBlockConfirmed Block
  | AppBlockDelivered hash Position "byte list"

text \<open>The \<open>switch\<close> of the worker: the callback of the application an event leads to.\<close>

fun callOf :: "event \<Rightarrow> appCall list" where
  "callOf (blockConfirmedEvent b) = [AppBlockConfirmed b]"
| "callOf (blockDeliveredEvent h p r) = [AppBlockDelivered h p r]"
| "callOf otherEvent = []"


text \<open>
  Where the worker goroutine of \<open>run\<close> is: waiting for the lock or the condition, out of
  the critical section with the event it took, or back from the callback and before
  \<open>running.Done()\<close>. Where a caller of \<open>wait\<close> is: not in the call, asleep in
  \<open>eventsChange.Wait()\<close> (which releases the lock), in \<open>running.Wait()\<close> with the lock
  held, or returned.
\<close>

datatype worker = Idle | Holding event | Called event

datatype waiter = NotCalled | Sleeping | Draining | WaitReturned

text \<open>
  The fields \<open>events\<close> and \<open>running\<close> (the counter of the wait group), the two
  goroutines, and the calls the application has received, in order. The last three
  fields are history: every event passed to \<open>addEvent\<close> so far, and the values of that
  history and of the queue when \<open>wait\<close> was called; no transition reads them.
\<close>

record nonBlocking =
  events :: "event list"
  running :: int
  worker :: worker
  waiter :: waiter
  delivered :: "appCall list"
  submitted :: "event list"
  submittedAtWait :: "event list"
  queuedAtWait :: "event list"


text \<open>The lock \<open>eventsChange.L\<close> is held over a whole transition only by a caller of
  \<open>wait\<close> that is in \<open>running.Wait()\<close>.\<close>

definition lockFree :: "nonBlocking \<Rightarrow> bool" where
  "lockFree nb = (waiter nb \<noteq> Draining)"

definition addEvent :: "event \<Rightarrow> nonBlocking \<Rightarrow> nonBlocking option" where
  "addEvent e nb =
     (if lockFree nb
      then Some (nb\<lparr>events := events nb @ [e], submitted := submitted nb @ [e]\<rparr>)
      else None)"

text \<open>The loop \<open>for len(nb.events) > 0 { nb.eventsChange.Wait() }\<close> of \<open>wait\<close>, entered
  with the lock held.\<close>

definition waitTest :: "nonBlocking \<Rightarrow> nonBlocking" where
  "waitTest nb = nb\<lparr>waiter := (if events nb = [] then Draining else Sleeping)\<rparr>"

text \<open>
  The atomic steps of the goroutines: the two submissions; the critical section of the
  worker, which takes the first event and adds 1 to \<open>running\<close>; the callback; the call
  of \<open>running.Done()\<close>; the call of \<open>wait\<close> up to its first test; the test after a
  wake-up; the return of \<open>wait\<close>. A step that cannot be taken (it waits for the lock, the
  condition or the wait group) is \<open>None\<close>.
\<close>

datatype action =
    ActBlockConfirmed Block
  | ActBlockDelivered hash Position "byte list"
  | ActTake
  | ActCallback
  | ActDone
  | ActWaitCall
  | ActWaitWake
  | ActWaitReturn

fun step :: "action \<Rightarrow> nonBlocking \<Rightarrow> nonBlocking option" where
  "step (ActBlockConfirmed b) nb = addEvent (blockConfirmedEvent b) nb"
| "step (ActBlockDelivered h p r) nb = addEvent (blockDeliveredEvent h p r) nb"
| "step ActTake nb =
     (if lockFree nb \<and> worker nb = Idle
      then (case events nb of
              [] \<Rightarrow> None
            | e # rest \<Rightarrow> Some (nb\<lparr>events := rest, running := running nb + 1, worker := Holding e\<rparr>))
      else None)"
| "step ActCallback nb =
     (case worker nb of
        Holding e \<Rightarrow> Some (nb\<lparr>delivered := delivered nb @ callOf e, worker := Called e\<rparr>)
      | _ \<Rightarrow> None)"
| "step ActDone nb =
     (case worker nb of
        Called e \<Rightarrow> Some (nb\<lparr>running := running nb - 1, worker := Idle\<rparr>)
      | _ \<Rightarrow> None)"
| "step ActWaitCall nb =
     (if lockFree nb \<and> (waiter nb = NotCalled \<or> waiter nb = WaitReturned)
      then Some (waitTest (nb\<lparr>submittedAtWait := submitted nb, queuedAtWait := events nb\<rparr>))
      else None)"
| "step ActWaitWake nb = (if waiter nb = Sleeping then Some (waitTest nb) else None)"
| "step ActWaitReturn nb =
     (if waiter nb = Draining \<and> running nb = 0 then Some (nb\<lparr>waiter := WaitReturned\<rparr>)
      else None)"

fun run :: "action list \<Rightarrow> nonBlocking \<Rightarrow> nonBlocking option" where
  "run [] nb = Some nb"
| "run (act # acts) nb = (case step act nb of None \<Rightarrow> None | Some nb1 \<Rightarrow> run acts nb1)"







section \<open>Properties of the committee cache\<close>

lemmas cache_defs =
  update_def cacheRound_def Touch_def Purge_def get_def NewNodeSetCache_def NewNodeSet_def
  Add_def Let_def

lemmas example_defs = exProvider_def exTypes_def exRec_def exSets_def exKey_def

subsection \<open>The sweep of \<open>update\<close>\<close>

lemma poolCount_upd:
  "poolCount (pool(a \<mapsto> rec)) n = (if n = a then refCnt rec else poolCount pool n)"
  "poolCount (pool(a := None)) n = (if n = a then 0 else poolCount pool n)"
  by (simp_all add: poolCount_def)

text \<open>A run of \<open>releaseKeys\<close> that does not panic lowers the count of a node by the
  number of times the node occurs in the list.\<close>

lemma releaseKeys_count:
  "releaseKeys ids pool = Some pool' \<Longrightarrow>
   poolCount pool' n = poolCount pool n - int (count_list ids n)"
proof (induction ids arbitrary: pool)
  case Nil
  then show ?case by simp
next
  case (Cons a ids)
  from Cons.prems obtain rec where rec: "pool a = Some rec"
    by (auto split: option.splits)
  have here: "poolCount pool a = refCnt rec" using rec by (simp add: poolCount_def)
  show ?case
  proof (cases "refCnt rec - 1 = 0")
    case True
    then have "releaseKeys ids (pool(a := None)) = Some pool'"
      using Cons.prems rec by simp
    from Cons.IH[OF this, unfolded poolCount_upd] show ?thesis using True here
      by (simp split: if_splits)
  next
    case False
    then have "releaseKeys ids (pool(a \<mapsto> rec\<lparr>refCnt := refCnt rec - 1\<rparr>)) = Some pool'"
      using Cons.prems rec by simp
    from Cons.IH[OF this, unfolded poolCount_upd] show ?thesis using here
      by (simp split: if_splits)
  qed
qed


lemma purgeOlder_rounds:
  "purgeOlder R rs cache = Some cache' \<Longrightarrow>
   map_of (rounds cache') r =
     (if r \<in> fst ` set rs \<and> 5 < R - r then None else map_of (rounds cache) r)"
proof (induction rs arbitrary: cache)
  case Nil
  then show ?case by simp
next
  case (Cons a rs)
  obtain rID nIDs where a: "a = (rID, nIDs)" by (cases a)
  show ?case
  proof (cases "R - rID \<le> 5")
    case True
    then show ?thesis using Cons a by (auto simp: not_less)
  next
    case False
    then obtain pool where p: "releaseKeys (nodeSet nIDs) (keyPool cache) = Some pool"
      and rest: "purgeOlder R rs (cache\<lparr>keyPool := pool, rounds := AList.delete rID (rounds cache)\<rparr>) = Some cache'"
      using Cons.prems a by (auto split: option.splits)
    from Cons.IH[OF rest] show ?thesis using False a
      by (auto simp: delete_conv' not_le)
  qed
qed

lemma purgeOlder_count:
  "purgeOlder R rs cache = Some cache' \<Longrightarrow>
   poolCount (keyPool cache') n =
     poolCount (keyPool cache) n
       - int (\<Sum>(r, s) \<leftarrow> rs. if 5 < R - r then count_list (nodeSet s) n else 0)"
proof (induction rs arbitrary: cache)
  case Nil
  then show ?case by simp
next
  case (Cons a rs)
  obtain rID nIDs where a: "a = (rID, nIDs)" by (cases a)
  show ?case
  proof (cases "R - rID \<le> 5")
    case True
    then show ?thesis using Cons a by (auto simp: not_less)
  next
    case False
    then obtain pool where p: "releaseKeys (nodeSet nIDs) (keyPool cache) = Some pool"
      and rest: "purgeOlder R rs (cache\<lparr>keyPool := pool, rounds := AList.delete rID (rounds cache)\<rparr>) = Some cache'"
      using Cons.prems a by (auto split: option.splits)
    from Cons.IH[OF rest] releaseKeys_count[OF p, of n] show ?thesis using False a
      by (auto simp: not_le)
  qed
qed

text \<open>What a successful \<open>update\<close> consists of: the new snapshot is stored, then swept.\<close>

lemma update_success:
  assumes "update t d R cache = Returned cache' (Inr nIDs)"
  obtains mid where "cacheRound t d R cache = (mid, Inr nIDs)"
    and "rounds mid = AList.update R nIDs (rounds cache)"
    and "purgeOlder R (rounds mid) mid = Some cache'"
proof -
  obtain mid res where cr: "cacheRound t d R cache = (mid, res)"
    by (cases "cacheRound t d R cache")
  with assms have res: "res = Inr nIDs" and po: "purgeOlder R (rounds mid) mid = Some cache'"
    by (auto simp: update_def split: sum.splits option.splits)
  have "rounds mid = AList.update R nIDs (rounds cache)"
    using cr res
    by (auto simp: cacheRound_def Let_def split: option.splits if_splits prod.splits)
  with cr res po that show ?thesis by simp
qed

text \<open>The \<open>uint64\<close> difference of a round and a newer one wraps around.\<close>

lemma wrap_newer:
  "R < R' \<Longrightarrow> unat R' - unat R < 2 ^ 64 - 5 \<Longrightarrow> 5 < R - (R' :: u64)"
  by (simp add: word_less_nat_alt unat_sub_if_size word_size)


subsection \<open>Claims about the committee cache\<close>

text \<open>
  Claim C1 (the pool count of a node equals the number of retained rounds whose node set
  contains it, and the record is deleted when the count reaches zero; in particular two
  calls of \<open>update\<close> for one round do not leave the count above the number of retained
  rounds). The code does not keep this: \<open>Touch\<close> calls \<open>update\<close> without looking the
  round up, and \<open>update\<close> counts every key again and overwrites the snapshot. After two
  \<open>Touch\<close> calls for round 0 the node has count 2 with a single retained round, and after
  \<open>Purge\<close> of that round its record stays in the pool with count 1 and no retained round.
\<close>

theorem C1_touch_twice_overcounts:
  "runOps exTypes (exProvider (Some [exKey]) 1 (Some \<lparr>NotarySetSize = 1\<rparr>))
       [OpTouch 0, OpTouch 0] NewNodeSetCache
     = Some \<lparr>rounds = [(0, exSets [NodeID 7] [NodeID 7])], keyPool = [NodeID 7 \<mapsto> exRec 2]\<rparr>
   \<and> poolCount [NodeID 7 \<mapsto> exRec 2] (NodeID 7) = 2
   \<and> retainedRefs \<lparr>rounds = [(0, exSets [NodeID 7] [NodeID 7])],
                     keyPool = [NodeID 7 \<mapsto> exRec 2]\<rparr> (NodeID 7) = 1
   \<and> runOps exTypes (exProvider (Some [exKey]) 1 (Some \<lparr>NotarySetSize = 1\<rparr>))
       [OpTouch 0, OpTouch 0, OpPurge 0] NewNodeSetCache
     = Some \<lparr>rounds = [], keyPool = [NodeID 7 \<mapsto> exRec 1]\<rparr>
   \<and> poolCount [NodeID 7 \<mapsto> exRec 1] (NodeID 7) = 1
   \<and> retainedRefs \<lparr>rounds = [], keyPool = [NodeID 7 \<mapsto> exRec 1]\<rparr> (NodeID 7) = 0"
  by (simp add: cache_defs example_defs poolCount_def retainedRefs_def)

text \<open>
  Claim C2 (an \<open>update\<close> that returns a not-ready error leaves the cache unchanged).
  The code fetches the configuration after the loop that counts the keys, so when the
  configuration is absent it returns the error with the pool already changed: from the
  empty cache, with one key in the provider's list and a non-zero CRS, the node has a
  record with count 1 although no round is stored.
\<close>

theorem C2_config_not_ready_changes_pool:
  "update exTypes (exProvider (Some [exKey]) 1 None) 0 NewNodeSetCache
     = Returned \<lparr>rounds = [], keyPool = [NodeID 7 \<mapsto> exRec 1]\<rparr> (Inl ErrConfigurationNotReady)
   \<and> keyPool NewNodeSetCache (NodeID 7) = None
   \<and> poolCount [NodeID 7 \<mapsto> exRec 1] (NodeID 7) = 1"
  by (simp add: cache_defs example_defs poolCount_def)




text \<open>
  Claim C8 (\<open>update\<close> fails with the node-set-not-ready error when the provider's key
  list is empty or nil, a zero-length list that is not nil included). The code tests
  \<open>keySet == nil\<close> only, although the error is documented as standing for a nil or empty
  node set: with a list of length zero that is not nil, a non-zero CRS and a
  configuration, \<open>update\<close> returns no error and stores a snapshot with no node, which
  later lookups of the round find.
\<close>

theorem C8_empty_list_is_accepted:
  "NodeSet (exProvider (Some []) 1 (Some \<lparr>NotarySetSize = 1\<rparr>)) 0 = Some []
   \<and> update exTypes (exProvider (Some []) 1 (Some \<lparr>NotarySetSize = 1\<rparr>)) 0 NewNodeSetCache
     = Returned \<lparr>rounds = [(0, exSets [] [])], keyPool = Map.empty\<rparr> (Inr (exSets [] []))
   \<and> get 0 \<lparr>rounds = [(0, exSets [] [])], keyPool = Map.empty\<rparr> = Some (exSets [] [])"
  by (simp add: cache_defs example_defs)

text \<open>
  Claim C9: when a round \<open>R'\<close> newer than \<open>R\<close> is cached and \<open>R' - R < 2^64 - 5\<close>, the
  \<open>uint64\<close> difference \<open>R - R'\<close> wraps around to a value above 5, and a successful
  \<open>update\<close> of \<open>R\<close> sweeps \<open>R'\<close>: its snapshot is dropped, and the count of each of its
  nodes is lower than it was when the sweep began.
\<close>

theorem C9_newer_round_is_swept:
  assumes "update t d R cache = Returned cache' (Inr nIDs)"
    and "distinct (map fst (rounds cache))"
    and "get R' cache = Some old"
    and "R < R'"
    and "unat R' - unat R < 2 ^ 64 - 5"
  shows "5 < R - R' \<and> get R' cache' = None
       \<and> (\<forall>n \<in> set (nodeSet old).
            poolCount (keyPool cache') n < poolCount (keyPool (fst (cacheRound t d R cache))) n)"
proof -
  from assms(1) obtain mid where cr: "cacheRound t d R cache = (mid, Inr nIDs)"
    and rm: "rounds mid = AList.update R nIDs (rounds cache)"
    and po: "purgeOlder R (rounds mid) mid = Some cache'"
    by (rule update_success)
  have far: "5 < R - R'" using assms(4,5) by (rule wrap_newer)
  have ne: "R' \<noteq> R" using assms(4) by auto
  have "map_of (rounds mid) R' = Some old"
    using assms(3) ne by (simp add: rm update_conv' get_def)
  then have mem: "(R', old) \<in> set (rounds mid)" by (rule map_of_SomeD)
  then have "R' \<in> fst ` set (rounds mid)" by force
  with far purgeOlder_rounds[OF po, of R'] have gone: "get R' cache' = None"
    by (simp add: get_def)
  have less: "poolCount (keyPool cache') n < poolCount (keyPool mid) n"
    if n: "n \<in> set (nodeSet old)" for n
  proof -
    let ?f = "\<lambda>(r, s). if 5 < R - r then count_list (nodeSet s) n else 0"
    have "?f (R', old) \<in> ?f ` set (rounds mid)" using mem by (rule imageI)
    then have "?f (R', old) \<in> set (map ?f (rounds mid))" by simp
    then have "?f (R', old) \<le> sum_list (map ?f (rounds mid))" by (rule member_le_sum_list) simp
    moreover have "count_list (nodeSet old) n \<noteq> 0" using n by (simp add: count_list_0_iff)
    ultimately have "0 < sum_list (map ?f (rounds mid))" using far by simp
    with purgeOlder_count[OF po, of n] show ?thesis by simp
  qed
  from far gone less cr show ?thesis by simp
qed


theorem C9_newer_round_is_swept_witness:
  "update exTypes (exProvider (Some [exKey]) 1 (Some \<lparr>NotarySetSize = 1\<rparr>)) 3
       \<lparr>rounds = [(10, exSets [NodeID 7, NodeID 8] [NodeID 7]), (1, exSets [NodeID 8] [])],
        keyPool = [NodeID 7 \<mapsto> exRec 1, NodeID 8 \<mapsto> exRec 2]\<rparr>
     = Returned \<lparr>rounds = [(1, exSets [NodeID 8] []), (3, exSets [NodeID 7] [NodeID 7])],
                 keyPool = [NodeID 7 \<mapsto> exRec 1, NodeID 8 \<mapsto> exRec 1]\<rparr>
         (Inr (exSets [NodeID 7] [NodeID 7]))
   \<and> (3::u64) < 10 \<and> unat (10::u64) - unat (3::u64) < 2 ^ 64 - 5
   \<and> (5::u64) < 3 - 10
   \<and> get 10 \<lparr>rounds = [(1, exSets [NodeID 8] []), (3, exSets [NodeID 7] [NodeID 7])],
              keyPool = [NodeID 7 \<mapsto> exRec 1, NodeID 8 \<mapsto> exRec 1]\<rparr> = None"
proof -
  let ?c0 = "\<lparr>rounds = [(10, exSets [NodeID 7, NodeID 8] [NodeID 7]), (1, exSets [NodeID 8] [])],
             keyPool = [NodeID 7 \<mapsto> exRec 1, NodeID 8 \<mapsto> exRec 2]\<rparr>"
  let ?c1 = "\<lparr>rounds = [(1, exSets [NodeID 8] []), (3, exSets [NodeID 7] [NodeID 7])],
             keyPool = [NodeID 7 \<mapsto> exRec 1, NodeID 8 \<mapsto> exRec 1]\<rparr>"
  have run: "update exTypes (exProvider (Some [exKey]) 1 (Some \<lparr>NotarySetSize = 1\<rparr>)) 3 ?c0
      = Returned ?c1 (Inr (exSets [NodeID 7] [NodeID 7]))"
    by (simp add: cache_defs example_defs)
  have dist: "distinct (map fst (rounds ?c0))" by simp
  have cached: "get 10 ?c0 = Some (exSets [NodeID 7, NodeID 8] [NodeID 7])"
    by (simp add: get_def)
  have newer: "(3::u64) < 10" by simp
  have gap: "unat (10::u64) - unat (3::u64) < 2 ^ 64 - 5" by simp
  from C9_newer_round_is_swept[OF run dist cached newer gap]
  have "(5::u64) < 3 - 10" and "get 10 ?c1 = None" by blast+
  with run newer gap show ?thesis by blast
qed

section \<open>Properties of hashing and signing\<close>



subsection \<open>The byte encodings are injective and of fixed length\<close>

lemma length_le_bytes [simp]: "length (le_bytes n w) = n"
  by (simp add: le_bytes_def)

lemma length_PutUint64 [simp]: "length (PutUint64 v) = 8"
  by (simp add: PutUint64_def)

lemma length_hashBytes [simp]: "length (hashBytes h) = 32"
  by (simp add: hashBytes_def)

lemma le_bytes_inj:
  assumes "LENGTH('a::len) \<le> 8 * n" and "le_bytes n (w::'a word) = le_bytes n v"
  shows "w = v"
proof (rule bit_word_eqI)
  fix m assume m: "m < LENGTH('a)"
  define i where "i = m div 8"
  define j where "j = m mod 8"
  have i: "i < n" using m assms(1) by (simp add: i_def less_mult_imp_div_less mult.commute)
  have j: "j < 8" by (simp add: j_def)
  have mij: "m = 8 * i + j" by (simp add: i_def j_def)
  from assms(2) i have "(ucast (drop_bit (8 * i) w) :: byte) = ucast (drop_bit (8 * i) v)"
    by (auto simp: le_bytes_def)
  then have "bit (ucast (drop_bit (8 * i) w) :: byte) j = bit (ucast (drop_bit (8 * i) v) :: byte) j"
    by simp
  then show "bit w m = bit v m" using j mij
    by (simp add: bit_ucast_iff bit_drop_bit_eq)
qed

lemma PutUint64_inj [simp]: "PutUint64 v = PutUint64 w \<longleftrightarrow> v = w"
  by (auto simp: PutUint64_def dest: le_bytes_inj[rotated])

lemma hashBytes_inj [simp]: "hashBytes g = hashBytes h \<longleftrightarrow> g = h"
  by (auto simp: hashBytes_def dest: le_bytes_inj[rotated])

subsection \<open>Blocks\<close>

text \<open>The hash of a block depends on the timestamp through its UTC form only.\<close>

lemma HashBlock_same_instant:
  "UTC tm = UTC (Timestamp b) \<Longrightarrow> HashBlock k (b\<lparr>Timestamp := tm\<rparr>) = HashBlock k b"
  by (simp add: HashBlock_def)

lemma VerifyBlockSignature_same_instant:
  "UTC tm = UTC (Timestamp b) \<Longrightarrow>
   VerifyBlockSignature k t (b\<lparr>Timestamp := tm\<rparr>) = VerifyBlockSignature k t b"
  by (simp add: VerifyBlockSignature_def VerifyBlockSignatureWithoutPayload_def
      HashBlock_same_instant split: prod.splits option.splits)









lemma SetBLSSigner_identity:
  "proposerID (SetBLSSigner f s) = proposerID s"
  "signerPubKey (SetBLSSigner f s) = signerPubKey s"
  by (simp_all add: SetBLSSigner_def)

lemma exSigner_fields:
  "proposerID exSigner = NodeID 0" "blsSign exSigner = None" "prvKey exSigner = [0]"
  by (simp_all add: exSigner_def NewSigner_def exUtils_def exTypes_def)

subsection \<open>Claims about signing and verification\<close>

text \<open>
  Claim C4: \<open>SignCRS\<close> returns the invalid-proposer error, with the block as it was and
  no call to the threshold signer, when the proposer of the block is not the signer's
  identity. When it is and the round is below \<open>dkgDelayRound\<close>, the CRS signature
  becomes the digest of the CRS, the position hash and the proposer, of type \<open>bls\<close>, with
  no error and no call to the threshold signer. When the round is not below it and no
  threshold signer is set, the error is \<open>ErrNoBLSSigner\<close> and the block is as it was.
  Otherwise the threshold signer is called once, with the round and the digest of the
  CRS and the position hash, and its signature and error are the result.
\<close>

theorem C4_SignCRS_cases:
  "(ProposerID b \<noteq> proposerID s \<longrightarrow>
      SignCRS k s b c = (b, Some ErrInvalidProposerID, []))
   \<and> (ProposerID b = proposerID s \<and> Round (Position b) < dkgDelayRound k \<longrightarrow>
      SignCRS k s b c =
        (b\<lparr>CRSSignature :=
             \<lparr>sigType = ''bls'',
              sigBytes = hashBytes (Keccak256Hash k
                 (hashBytes c @ hashBytes (HashPosition k (Position b))
                  @ hashBytes (nodeHash (ProposerID b))))\<rparr>\<rparr>,
         None, []))
   \<and> (ProposerID b = proposerID s \<and> \<not> Round (Position b) < dkgDelayRound k
        \<and> blsSign s = None \<longrightarrow>
      SignCRS k s b c = (b, Some ErrNoBLSSigner, []))
   \<and> (ProposerID b = proposerID s \<and> \<not> Round (Position b) < dkgDelayRound k
        \<and> blsSign s = Some f \<longrightarrow>
      SignCRS k s b c =
        (b\<lparr>CRSSignature :=
             fst (f (Round (Position b))
                    (Keccak256Hash k (hashBytes c @ hashBytes (HashPosition k (Position b)))))\<rparr>,
         snd (f (Round (Position b))
                (Keccak256Hash k (hashBytes c @ hashBytes (HashPosition k (Position b))))),
         [(Round (Position b),
           Keccak256Hash k (hashBytes c @ hashBytes (HashPosition k (Position b))))]))"
  by (simp add: SignCRS_def hashCRS_def Let_def split: prod.splits)

theorem C4_SignCRS_cases_witness:
  "SignCRS exUtils exSigner (exBlock\<lparr>ProposerID := NodeID 1\<rparr>) 7
     = (exBlock\<lparr>ProposerID := NodeID 1\<rparr>, Some ErrInvalidProposerID, [])
   \<and> SignCRS exUtils exSigner exBlock 7
     = (exBlock\<lparr>CRSSignature := \<lparr>sigType = ''bls'', sigBytes = hashBytes 96\<rparr>\<rparr>, None, [])
   \<and> SignCRS exUtils exSigner (exBlock\<lparr>Position := \<lparr>Round = 1, Height = 1\<rparr>\<rparr>) 7
     = (exBlock\<lparr>Position := \<lparr>Round = 1, Height = 1\<rparr>\<rparr>, Some ErrNoBLSSigner, [])
   \<and> SignCRS exUtils (SetBLSSigner (Some exBlsSigner) exSigner)
        (exBlock\<lparr>Position := \<lparr>Round = 1, Height = 1\<rparr>\<rparr>) 7
     = (exBlock\<lparr>Position := \<lparr>Round = 1, Height = 1\<rparr>,
                CRSSignature := \<lparr>sigType = ''bls'', sigBytes = PutUint64 1\<rparr>\<rparr>,
        None, [(1, 64)])"
proof -
  have 1: "SignCRS exUtils exSigner (exBlock\<lparr>ProposerID := NodeID 1\<rparr>) 7
     = (exBlock\<lparr>ProposerID := NodeID 1\<rparr>, Some ErrInvalidProposerID, [])"
    using C4_SignCRS_cases[of "exBlock\<lparr>ProposerID := NodeID 1\<rparr>" exSigner exUtils 7]
    by (simp add: exSigner_fields)
  have 2: "SignCRS exUtils exSigner exBlock 7
     = (exBlock\<lparr>CRSSignature := \<lparr>sigType = ''bls'', sigBytes = hashBytes 96\<rparr>\<rparr>, None, [])"
    using C4_SignCRS_cases[of exBlock exSigner exUtils 7]
    by (simp add: exSigner_fields) (simp add: exBlock_def exUtils_def HashPosition_def)
  have 3: "SignCRS exUtils exSigner (exBlock\<lparr>Position := \<lparr>Round = 1, Height = 1\<rparr>\<rparr>) 7
     = (exBlock\<lparr>Position := \<lparr>Round = 1, Height = 1\<rparr>\<rparr>, Some ErrNoBLSSigner, [])"
    using C4_SignCRS_cases[of "exBlock\<lparr>Position := \<lparr>Round = 1, Height = 1\<rparr>\<rparr>" exSigner exUtils 7]
    by (simp add: exSigner_fields) (simp add: exBlock_def exUtils_def)
  have 4: "SignCRS exUtils (SetBLSSigner (Some exBlsSigner) exSigner)
        (exBlock\<lparr>Position := \<lparr>Round = 1, Height = 1\<rparr>\<rparr>) 7
     = (exBlock\<lparr>Position := \<lparr>Round = 1, Height = 1\<rparr>,
                CRSSignature := \<lparr>sigType = ''bls'', sigBytes = PutUint64 1\<rparr>\<rparr>,
        None, [(1, 64)])"
    using C4_SignCRS_cases[of "exBlock\<lparr>Position := \<lparr>Round = 1, Height = 1\<rparr>\<rparr>"
        "SetBLSSigner (Some exBlsSigner) exSigner" exUtils 7 exBlsSigner]
    by (simp add: exSigner_fields SetBLSSigner_def)
       (simp add: exBlock_def exUtils_def exBlsSigner_def HashPosition_def)
  from 1 2 3 4 show ?thesis by blast
qed


lemma mutate_keeps [simp]:
  "Hash (mutate m b) = Hash b" "PayloadHash (mutate m b) = PayloadHash b"
  "Signature (mutate m b) = Signature b"
  by (cases m; simp)+





text \<open>
  Claim C10: \<open>VerifyDKGComplaintSignature\<close> returns false without an error when the
  round or the reset of the complaint differs from that of its private share. When both
  agree, key recovery succeeds and the recovered identity is the proposer of the
  complaint, the result is true for a nack and otherwise exactly the result of
  \<open>VerifyDKGPrivateShareSignature\<close> on the private share.
\<close>

theorem C10_complaint_signature:
  "(cRound c \<noteq> psRound (cPrivateShare c) \<or> cReset c \<noteq> psReset (cPrivateShare c) \<longrightarrow>
      VerifyDKGComplaintSignature k t c = (False, None))
   \<and> (cRound c = psRound (cPrivateShare c) \<and> cReset c = psReset (cPrivateShare c)
        \<and> SigToPub k (hashDKGComplaint k c) (cSignature c) = (pub, None)
        \<and> cProposerID c = NewNodeID t pub \<longrightarrow>
      VerifyDKGComplaintSignature k t c =
        (if IsNack k c then (True, None)
         else VerifyDKGPrivateShareSignature k t (cPrivateShare c)))"
  by (simp add: VerifyDKGComplaintSignature_def Let_def)

theorem C10_complaint_signature_witness:
  "VerifyDKGComplaintSignature exUtils exTypes (exComplaint (exShare (NodeID 4) 2 [4])) = (False, None)
   \<and> VerifyDKGPrivateShareSignature exUtils exTypes (exShare (NodeID 4) 1 [4]) = (True, None)
   \<and> VerifyDKGComplaintSignature exUtils exTypes (exComplaint (exShare (NodeID 4) 1 [4])) = (True, None)
   \<and> VerifyDKGPrivateShareSignature exUtils exTypes (exShare (NodeID 5) 1 [4]) = (False, None)
   \<and> VerifyDKGComplaintSignature exUtils exTypes (exComplaint (exShare (NodeID 5) 1 [4])) = (False, None)
   \<and> IsNack exUtils (exComplaint (exShare (NodeID 5) 1 []))
   \<and> VerifyDKGComplaintSignature exUtils exTypes (exComplaint (exShare (NodeID 5) 1 [])) = (True, None)"
proof -
  have rec: "SigToPub exUtils (hashDKGComplaint exUtils (exComplaint sh)) (cSignature (exComplaint sh))
      = ([3], None)" for sh
    by (simp add: exUtils_def exComplaint_def)
  have idn: "cProposerID (exComplaint sh) = NewNodeID exTypes [3]" for sh
    by (simp add: exTypes_def exComplaint_def)
  have 1: "VerifyDKGComplaintSignature exUtils exTypes (exComplaint (exShare (NodeID 4) 2 [4])) = (False, None)"
    using C10_complaint_signature[of "exComplaint (exShare (NodeID 4) 2 [4])" exUtils exTypes "[3]"]
    by (simp add: exComplaint_def exShare_def)
  have 2: "VerifyDKGPrivateShareSignature exUtils exTypes (exShare (NodeID 4) 1 [4]) = (True, None)"
    by (simp add: VerifyDKGPrivateShareSignature_def exUtils_def exTypes_def exShare_def)
  have 3: "VerifyDKGComplaintSignature exUtils exTypes (exComplaint (exShare (NodeID 4) 1 [4]))
      = VerifyDKGPrivateShareSignature exUtils exTypes (exShare (NodeID 4) 1 [4])"
    using C10_complaint_signature[of "exComplaint (exShare (NodeID 4) 1 [4])" exUtils exTypes "[3]"]
      rec idn
    by (simp add: exComplaint_def exShare_def) (simp add: exUtils_def)
  have 4: "VerifyDKGPrivateShareSignature exUtils exTypes (exShare (NodeID 5) 1 [4]) = (False, None)"
    by (simp add: VerifyDKGPrivateShareSignature_def exUtils_def exTypes_def exShare_def)
  have 5: "VerifyDKGComplaintSignature exUtils exTypes (exComplaint (exShare (NodeID 5) 1 [4]))
      = VerifyDKGPrivateShareSignature exUtils exTypes (exShare (NodeID 5) 1 [4])"
    using C10_complaint_signature[of "exComplaint (exShare (NodeID 5) 1 [4])" exUtils exTypes "[3]"]
      rec idn
    by (simp add: exComplaint_def exShare_def) (simp add: exUtils_def)
  have 6: "IsNack exUtils (exComplaint (exShare (NodeID 5) 1 []))"
    by (simp add: exUtils_def exComplaint_def exShare_def)
  have 7: "VerifyDKGComplaintSignature exUtils exTypes (exComplaint (exShare (NodeID 5) 1 [])) = (True, None)"
    using C10_complaint_signature[of "exComplaint (exShare (NodeID 5) 1 [])" exUtils exTypes "[3]"]
      rec idn 6
    by (simp add: exComplaint_def exShare_def)
  from 1 2 3 4 5 6 7 show ?thesis by simp
qed

section \<open>Properties of the agreement state machine\<close>

lemma stateAt_path:
  shows "stateAt a stateFast 0 = stateFast"
    and "stateAt a stateFast 1 = stateFastVote"
    and "stateAt a stateFast 2 = stateInitial"
    and "stateAt a stateFast 3 = statePreCommit"
    and "stateAt a stateFast 4 = stateCommit"
    and "stateAt a stateFast 5 = stateForward"
    and "stateAt a stateFast 6 = statePullVote"
  by (simp_all add: eval_nat_numeral)

lemma stateAt_pull_forever: "6 \<le> n \<Longrightarrow> stateAt a stateFast n = statePullVote"
proof (induction n)
  case 0
  then show ?case by simp
next
  case (Suc n)
  show ?case
  proof (cases "n = 5")
    case True
    then show ?thesis by (simp add: eval_nat_numeral)
  next
    case False
    with Suc.prems have "6 \<le> n" by simp
    then have "stateAt a stateFast n = statePullVote" by (rule Suc.IH)
    then show ?thesis by simp
  qed
qed

lemma small_cases: "n < 6 \<Longrightarrow> n = 0 \<or> n = 1 \<or> n = 2 \<or> n = 3 \<or> n = 4 \<or> n = (5::nat)"
  by arith

text \<open>
  Claim C6: from \<open>stateFast\<close>, with \<open>isLeader\<close> true at every call and a proposal that
  yields a hash \<open>H\<close> other than the null hash, the states before the first seven calls of
  \<open>nextState\<close> are Fast, FastVote, Initial, PreCommit, Commit, Forward, PullVote, and the
  state is PullVote from then on; the first call proposes exactly one vote, whose type
  is Fast, whose block hash is \<open>H\<close> and whose period is the current one; no later call
  proposes a Fast vote, and no call proposes an Init vote.
\<close>

theorem C6_leader_fast_path:
  assumes leader: "\<forall>n. isLeader (a n)"
    and proposal: "ProposeBlock (a 0) = H"
    and nonnull: "H \<noteq> NullBlockHash"
  shows "map (stateAt a stateFast) [0..<7] =
           [stateFast, stateFastVote, stateInitial, statePreCommit, stateCommit,
            stateForward, statePullVote]
       \<and> (\<forall>n\<ge>6. stateAt a stateFast n = statePullVote)
       \<and> votesAt a stateFast 0 = [NewVote VoteFast H (period (a 0))]
       \<and> map vType (votesAt a stateFast 0) = [VoteFast]
       \<and> map vBlockHash (votesAt a stateFast 0) = [H]
       \<and> map vPeriod (votesAt a stateFast 0) = [period (a 0)]
       \<and> (\<forall>n>0. \<forall>v \<in> set (votesAt a stateFast n). vType v \<noteq> VoteFast)
       \<and> (\<forall>n. \<forall>v \<in> set (votesAt a stateFast n). vType v \<noteq> VoteInit)"
proof -
  have l0: "isLeader (a 0)" and l2: "isLeader (a 2)" using leader by simp_all
  note path = stateAt_path[of a]
  have seq: "map (stateAt a stateFast) [0..<7] =
           [stateFast, stateFastVote, stateInitial, statePreCommit, stateCommit,
            stateForward, statePullVote]"
    using path by (simp add: upt_rec[of _ 7] upt_rec[of _ "Suc _"] del: upt_Suc) 
  have loop: "\<forall>n\<ge>6. stateAt a stateFast n = statePullVote"
    by (simp add: stateAt_pull_forever)
  have v0: "votesAt a stateFast 0 = [NewVote VoteFast H (period (a 0))]"
    using l0 proposal nonnull by (simp add: votesAt_def)
  have later: "votesAt a stateFast n = []" if "6 \<le> n" for n
    using stateAt_pull_forever[OF that, of a] by (simp add: votesAt_def)
  have v1: "votesAt a stateFast 1 = []" using path by (simp add: votesAt_def)
  have v2: "votesAt a stateFast 2 = []" using path l2 by (simp add: votesAt_def)
  have v3: "\<forall>v \<in> set (votesAt a stateFast 3). vType v = VotePreCom"
    using path by (simp add: votesAt_def NewVote_def)
  have v4: "\<forall>v \<in> set (votesAt a stateFast 4). vType v = VoteCom"
    using path by (simp add: votesAt_def NewVote_def)
  have v5: "votesAt a stateFast 5 = []" using path by (simp add: votesAt_def)
  have nofast: "\<forall>v \<in> set (votesAt a stateFast n). vType v \<noteq> VoteFast" if "0 < n" for n
  proof (cases "6 \<le> n")
    case True
    then show ?thesis by (simp add: later)
  next
    case False
    then have "n < 6" by simp
    with that small_cases[of n] v1 v2 v3 v4 v5 show ?thesis by auto
  qed
  have noinit: "\<forall>v \<in> set (votesAt a stateFast n). vType v \<noteq> VoteInit" for n
  proof (cases "6 \<le> n")
    case True
    then show ?thesis by (simp add: later)
  next
    case False
    then have "n < 6" by simp
    with small_cases[of n] v0 v1 v2 v3 v4 v5 show ?thesis by (auto simp: NewVote_def)
  qed
  have ty: "map vType (votesAt a stateFast 0) = [VoteFast]"
    and bh: "map vBlockHash (votesAt a stateFast 0) = [H]"
    and pd: "map vPeriod (votesAt a stateFast 0) = [period (a 0)]"
    by (simp_all add: v0 NewVote_def)
  from seq loop v0 ty bh pd nofast noinit show ?thesis by blast
qed

theorem C6_leader_fast_path_witness:
  "(\<forall>n. isLeader (exData n)) \<and> ProposeBlock (exData 0) = 9 \<and> (9::hash) \<noteq> NullBlockHash
   \<and> map (stateAt exData stateFast) [0..<7] =
           [stateFast, stateFastVote, stateInitial, statePreCommit, stateCommit,
            stateForward, statePullVote]
   \<and> stateAt exData stateFast 10 = statePullVote
   \<and> votesAt exData stateFast 0 = [NewVote VoteFast 9 1]
   \<and> map vType (votesAt exData stateFast 0) = [VoteFast]
   \<and> map vBlockHash (votesAt exData stateFast 0) = [9]
   \<and> map vPeriod (votesAt exData stateFast 0) = [1]"
proof -
  have 1: "\<forall>n. isLeader (exData n)" by (simp add: exData_def)
  have 2: "ProposeBlock (exData 0) = 9" by (simp add: exData_def)
  have 3: "(9::hash) \<noteq> NullBlockHash" by (simp add: NullBlockHash_def)
  have 4: "period (exData 0) = 1" by (simp add: exData_def)
  from C6_leader_fast_path[OF 1 2 3] 4
  have "map (stateAt exData stateFast) [0..<7] =
           [stateFast, stateFastVote, stateInitial, statePreCommit, stateCommit,
            stateForward, statePullVote]"
    and "stateAt exData stateFast 10 = statePullVote"
    and "votesAt exData stateFast 0 = [NewVote VoteFast 9 1]"
    and "map vType (votesAt exData stateFast 0) = [VoteFast]"
    and "map vBlockHash (votesAt exData stateFast 0) = [9]"
    and "map vPeriod (votesAt exData stateFast 0) = [1]"
    by (simp_all add: NewVote_def)
  with 1 2 3 show ?thesis by blast
qed

section \<open>Properties of the dispatcher\<close>










end
